theory Spec2Isabelle
  imports Complex_Main
begin

section \<open>JavaScript values\<close>

text \<open>
  The repository is one serverless endpoint, \<^verbatim>\<open>api/index.js\<close>, kept in two full
  revisions: \<^verbatim>\<open>src/api/index.js\<close> (the later one; the file opens with a truncated
  copy of a third revision that stops inside its second \<^verbatim>\<open>case\<close>, followed by
  the complete text modelled here) and \<^verbatim>\<open>src/unnamed/part_000\<close> (the earlier
  one). Definitions that embed the earlier revision carry the suffix \<open>_part000\<close>.

  Values that reach the handler come out of \<^verbatim>\<open>JSON.parse\<close>. A number is a
  double that \<^verbatim>\<open>JSON.parse\<close> can give: its exact value, a rational (the two zeros
  are one value: the code cannot tell them apart), or an infinity (a literal beyond the
  range of the doubles). An object is the list of its own properties in insertion order,
  keys distinct. The JavaScript value \<^verbatim>\<open>undefined\<close> is \<open>None\<close> of
  \<open>json option\<close>.
\<close>

datatype number =
    Finite rat
  | PlusInfinity
  | MinusInfinity

datatype json =
    JNull
  | JBool bool
  | JNum number
  | JStr string
  | JArr "json list"
  | JObj "(string \<times> json) list"

text \<open>The operator \<^verbatim>\<open>!v\<close>: true on the falsy values.\<close>

fun falsy :: "json \<Rightarrow> bool" where
  "falsy JNull = True"
| "falsy (JBool b) = (b = False)"
| "falsy (JNum n) = (n = Finite 0)"
| "falsy (JStr s) = (s = [])"
| "falsy (JArr xs) = False"
| "falsy (JObj kvs) = False"

fun falsy_u :: "json option \<Rightarrow> bool" where
  "falsy_u None = True"
| "falsy_u (Some v) = falsy v"

text \<open>
  Property access \<^verbatim>\<open>v.k\<close> on a value that is neither \<^verbatim>\<open>null\<close> nor
  \<^verbatim>\<open>undefined\<close>, for the property names the handler reads (none of them is a
  built-in property of a string, an array, a number or a boolean).
\<close>

fun get_prop :: "json \<Rightarrow> string \<Rightarrow> json option" where
  "get_prop (JObj kvs) k = map_of kvs k"
| "get_prop v k = None"

text \<open>The operator \<^verbatim>\<open>a || b\<close> with a defined right operand.\<close>

fun js_or :: "json option \<Rightarrow> json \<Rightarrow> json option" where
  "js_or None d = Some d"
| "js_or (Some v) d = (if falsy v then Some d else Some v)"

text \<open>
  An object literal whose property values may be \<^verbatim>\<open>undefined\<close>, as
  \<^verbatim>\<open>JSON.stringify\<close> writes it: such properties are left out.
\<close>

fun stringified :: "(string \<times> json option) list \<Rightarrow> (string \<times> json) list" where
  "stringified [] = []"
| "stringified ((k, None) # ps) = stringified ps"
| "stringified ((k, Some v) # ps) = (k, v) # stringified ps"

subsection \<open>Texts\<close>

fun join :: "string \<Rightarrow> string list \<Rightarrow> string" where
  "join sep [] = []"
| "join sep [s] = s"
| "join sep (s # t # ts) = s @ sep @ join sep (t # ts)"

text \<open>\<^verbatim>\<open>s.includes(sub)\<close>: \<open>sub\<close> occurs in \<open>s\<close> at some position.\<close>

primrec str_includes :: "string \<Rightarrow> string \<Rightarrow> bool" where
  "str_includes [] sub = (sub = [])"
| "str_includes (c # cs) sub = (take (length sub) (c # cs) = sub \<or> str_includes cs sub)"

section \<open>The world outside the handler\<close>

text \<open>
  The two secrets are read from the process environment when the module is loaded; a
  variable that is not set reads as \<^verbatim>\<open>undefined\<close>. \<open>fetch\<close> is the remote
  service as the handler sees it: what an outbound request is answered with.
  Two texts are the JavaScript engine's, not the repository's: \<open>number_text\<close>, the
  text a template literal inserts for a number (decimal digits, with a fraction or an
  exponent where the number asks for one), and \<open>destructure_null_message\<close>, the message
  of the TypeError thrown when \<^verbatim>\<open>null\<close> is destructured.
\<close>

record fetch_request =
  url :: string
  http_method :: string
  headers :: "(string \<times> string) list"
  body :: "json option"

text \<open>
  A response carries its status, what \<^verbatim>\<open>response.text()\<close> yields and what
  \<^verbatim>\<open>response.json()\<close> yields; \<open>Inl\<close> is the message of the error the call
  rejects with.
\<close>

record http_response =
  status :: nat
  body_text :: "string + string"
  body_json :: "string + json"

datatype fetch_result =
    Rejected string
  | Responded http_response

record env =
  SUPABASE_URL :: "string option"
  SUPABASE_ANON_KEY :: "string option"
  fetch :: "fetch_request \<Rightarrow> fetch_result"
  number_text :: "number \<Rightarrow> string"
  destructure_null_message :: string

text \<open>\<^verbatim>\<open>!s\<close> and \<^verbatim>\<open>`${s}`\<close> for a string that may be \<^verbatim>\<open>undefined\<close>.\<close>

fun unset :: "string option \<Rightarrow> bool" where
  "unset None = True"
| "unset (Some s) = (s = [])"

fun env_text :: "string option \<Rightarrow> string" where
  "env_text None = ''undefined''"
| "env_text (Some s) = s"

text \<open>
  What a template literal \<^verbatim>\<open>`${v}`\<close> inserts for a value: an array is its
  elements joined by commas, \<^verbatim>\<open>null\<close> elements contributing nothing.
\<close>

fun to_string :: "env \<Rightarrow> json \<Rightarrow> string" where
  "to_string e JNull = ''null''"
| "to_string e (JBool b) = (if b then ''true'' else ''false'')"
| "to_string e (JNum n) = number_text e n"
| "to_string e (JStr s) = s"
| "to_string e (JArr xs) = join '','' (map (\<lambda>x. if x = JNull then [] else to_string e x) xs)"
| "to_string e (JObj kvs) = ''[object Object]''"

fun to_string_u :: "env \<Rightarrow> json option \<Rightarrow> string" where
  "to_string_u e None = ''undefined''"
| "to_string_u e (Some v) = to_string e v"

text \<open>\<^verbatim>\<open>`${response.status}`\<close>: the status is a number like any other.\<close>

definition status_text :: "env \<Rightarrow> http_response \<Rightarrow> string" where
  "status_text e r = number_text e (Finite (of_nat (status r)))"

text \<open>\<^verbatim>\<open>response.ok\<close>: the status is in the range 200 to 299.\<close>

definition ok :: "http_response \<Rightarrow> bool" where
  "ok r = (200 \<le> status r \<and> status r \<le> 299)"

text \<open>
  What a run does besides answering: reading the request body, calling \<open>fetch\<close>,
  writing to the diagnostic output. A call of \<^verbatim>\<open>console.error\<close> is the list of
  its arguments: a text, or an error object (the console prints its name, its message and
  its stack), given by its message.
\<close>

datatype console_arg =
    Text string
  | ErrorObject string

datatype event =
    ReadBody
  | Fetch fetch_request
  | ConsoleError "console_arg list"

fun is_fetch :: "event \<Rightarrow> bool" where
  "is_fetch (Fetch q) = True"
| "is_fetch ev = False"


fun gateway_calls :: "event list \<Rightarrow> fetch_request list" where
  "gateway_calls [] = []"
| "gateway_calls (Fetch q # evs) = q # gateway_calls evs"
| "gateway_calls (ev # evs) = gateway_calls evs"

section \<open>The gateway: callSupabase\<close>

text \<open>\<^verbatim>\<open>headers[k] = v\<close>: replaces the value of a header that is set, adds it otherwise.\<close>

fun set_header :: "string \<Rightarrow> string \<Rightarrow> (string \<times> string) list \<Rightarrow> (string \<times> string) list" where
  "set_header k v [] = [(k, v)]"
| "set_header k v ((k', v') # hs) = (if k' = k then (k, v) # hs else (k', v') # set_header k v hs)"

definition base_headers :: "env \<Rightarrow> (string \<times> string) list" where
  "base_headers e =
     [(''apikey'', env_text (SUPABASE_ANON_KEY e)),
      (''Authorization'', ''Bearer '' @ env_text (SUPABASE_ANON_KEY e)),
      (''Content-Type'', ''application/json''),
      (''Accept'', ''application/json'')]"

definition request_url :: "env \<Rightarrow> string \<Rightarrow> string \<Rightarrow> string" where
  "request_url e table filter_s =
     env_text (SUPABASE_URL e) @ ''/rest/v1/'' @ table @ (if filter_s = [] then [] else CHR ''?'' # filter_s)"

text \<open>\<^verbatim>\<open>body ? JSON.stringify(body) : null\<close>, the argument \<^verbatim>\<open>null\<close> being \<open>None\<close>.\<close>

fun request_body :: "json option \<Rightarrow> json option" where
  "request_body None = None"
| "request_body (Some b) = (if falsy b then None else Some b)"

text \<open>
  The request \<^verbatim>\<open>callSupabase\<close> of \<^verbatim>\<open>api/index.js\<close> hands to \<open>fetch\<close>: the
  \<^verbatim>\<open>Prefer\<close> header is chosen by an \<^verbatim>\<open>if ... else if\<close>.
\<close>

definition supabase_request :: "env \<Rightarrow> string \<Rightarrow> string \<Rightarrow> json option \<Rightarrow> string \<Rightarrow> fetch_request" where
  "supabase_request e table method b filter_s =
     \<lparr>url = request_url e table filter_s,
      http_method = method,
      headers =
        (if method = ''POST'' \<and> table = ''actions_log''
         then set_header ''Prefer'' ''return=minimal'' (base_headers e)
         else if method = ''PATCH'' \<or> method = ''POST''
         then set_header ''Prefer'' ''return=representation'' (base_headers e)
         else base_headers e),
      body = request_body b\<rparr>"

text \<open>
  The same in \<^verbatim>\<open>part_000\<close>: two \<^verbatim>\<open>if\<close> statements, one after the other.
\<close>

definition supabase_request_part000 :: "env \<Rightarrow> string \<Rightarrow> string \<Rightarrow> json option \<Rightarrow> string \<Rightarrow> fetch_request" where
  "supabase_request_part000 e table method b filter_s =
     (let h1 = (if method = ''POST'' \<and> table = ''actions_log''
                then set_header ''Prefer'' ''return=minimal'' (base_headers e)
                else base_headers e);
          h2 = (if method = ''PATCH'' \<or> method = ''POST''
                then set_header ''Prefer'' ''return=representation'' h1
                else h1)
      in \<lparr>url = request_url e table filter_s,
          http_method = method,
          headers = h2,
          body = request_body b\<rparr>)"

text \<open>The \<^verbatim>\<open>catch\<close> block of \<^verbatim>\<open>callSupabase\<close>, the same in both revisions.\<close>

definition db_failed :: "event list \<Rightarrow> string \<Rightarrow> event list \<times> (string + json)" where
  "db_failed evs m =
     (evs @ [ConsoleError [Text ''Supabase Call Failed:'', ErrorObject m]],
      Inl (''Database operation failed: '' @ m))"

definition success_marker :: json where
  "success_marker = JObj [(''success'', JBool True), (''data'', JNull)]"

text \<open>
  \<^verbatim>\<open>callSupabase\<close> of \<^verbatim>\<open>api/index.js\<close>. The result is the events of the call
  and what the promise settles with: \<open>Inl\<close> the message of the error, \<open>Inr\<close> the value.
  The credentials check stands before the \<^verbatim>\<open>try\<close>, so its error is not wrapped.
\<close>

definition callSupabase :: "env \<Rightarrow> string \<Rightarrow> string \<Rightarrow> json option \<Rightarrow> string \<Rightarrow> event list \<times> (string + json)" where
  "callSupabase e table method b filter_s =
     (if unset (SUPABASE_URL e) \<or> unset (SUPABASE_ANON_KEY e)
      then ([], Inl ''Supabase credentials are not configured.'')
      else
        let q = supabase_request e table method b filter_s in
        case fetch e q of
          Rejected m \<Rightarrow> db_failed [Fetch q] m
        | Responded r \<Rightarrow>
            if ok r then
              if status r = 204 then ([Fetch q], Inr success_marker)
              else
                (case body_json r of
                   Inl m \<Rightarrow> db_failed [Fetch q] m
                 | Inr j \<Rightarrow> ([Fetch q], Inr (case j of JArr [x] \<Rightarrow> x | _ \<Rightarrow> j)))
            else
              (case body_text r of
                 Inl m \<Rightarrow> db_failed [Fetch q] m
               | Inr t \<Rightarrow> db_failed [Fetch q] (''Supabase API Error '' @ status_text e r @ '': '' @ t)))"

text \<open>\<^verbatim>\<open>callSupabase\<close> of \<^verbatim>\<open>part_000\<close>: no credentials check.\<close>

definition callSupabase_part000 :: "env \<Rightarrow> string \<Rightarrow> string \<Rightarrow> json option \<Rightarrow> string \<Rightarrow> event list \<times> (string + json)" where
  "callSupabase_part000 e table method b filter_s =
     (let q = supabase_request_part000 e table method b filter_s in
      case fetch e q of
        Rejected m \<Rightarrow> db_failed [Fetch q] m
      | Responded r \<Rightarrow>
          if ok r then
            if status r = 204 then ([Fetch q], Inr success_marker)
            else
              (case body_json r of
                 Inl m \<Rightarrow> db_failed [Fetch q] m
               | Inr j \<Rightarrow> ([Fetch q], Inr (case j of JArr [x] \<Rightarrow> x | _ \<Rightarrow> j)))
          else
            (case body_text r of
               Inl m \<Rightarrow> db_failed [Fetch q] m
             | Inr t \<Rightarrow> db_failed [Fetch q] (''Supabase Error: '' @ status_text e r @ '' - '' @ t)))"

section \<open>The audit log: logAction\<close>

text \<open>
  \<^verbatim>\<open>p.catch(f)\<close> for a handler \<open>f\<close> that writes to the console and returns: a
  rejection of \<open>p\<close> is handed to \<open>f\<close> and the new promise is fulfilled (with
  \<^verbatim>\<open>undefined\<close>); a fulfilment of \<open>p\<close> is passed on.
\<close>

fun catch_with :: "(string \<Rightarrow> event list) \<Rightarrow> event list \<times> (string + json) \<Rightarrow> event list \<times> (string + json option)" where
  "catch_with f (evs, Inl m) = (evs @ f m, Inr None)"
| "catch_with f (evs, Inr v) = (evs, Inr (Some v))"

text \<open>
  \<^verbatim>\<open>logAction\<close> starts the insert and does not wait for it. \<^verbatim>\<open>callSupabase\<close>
  runs up to its first \<^verbatim>\<open>await\<close>, which is the call of \<open>fetch\<close>: the request is
  \<open>issued\<close> while \<^verbatim>\<open>logAction\<close> runs, before the handler goes on. What follows
  happens when the detached promise settles, at a moment the handler does not wait for:
  \<open>settled\<close> lists those events, in their order. \<open>uncaught\<close> is the message of a
  rejection that no handler of the chain has caught, if there is one.
\<close>

record audit_write =
  issued :: "event list"
  settled :: "event list"
  uncaught :: "string option"

definition detach :: "event list \<times> (string + json option) \<Rightarrow> audit_write" where
  "detach p =
     \<lparr>issued = takeWhile is_fetch (fst p),
      settled = dropWhile is_fetch (fst p),
      uncaught = (case snd p of Inl m \<Rightarrow> Some m | Inr v \<Rightarrow> None)\<rparr>"

definition no_audit :: audit_write where
  "no_audit = \<lparr>issued = [], settled = [], uncaught = None\<rparr>"

definition audit_record :: "json \<Rightarrow> json \<Rightarrow> json \<Rightarrow> json" where
  "audit_record userId action payload =
     JObj [(''action'', action), (''user_id'', userId), (''payload'', payload)]"

definition logAction :: "env \<Rightarrow> json \<Rightarrow> json \<Rightarrow> json \<Rightarrow> audit_write" where
  "logAction e userId action payload =
     detach (catch_with
       (\<lambda>m. [ConsoleError [Text (''Failed to log action '' @ to_string e action @ '':''), Text m]])
       (callSupabase e ''actions_log'' ''POST'' (Some (audit_record userId action payload)) []))"

definition logAction_part000 :: "env \<Rightarrow> json \<Rightarrow> json \<Rightarrow> json \<Rightarrow> audit_write" where
  "logAction_part000 e userId action payload =
     detach (catch_with
       (\<lambda>m. [ConsoleError [Text (''Failed to log action '' @ to_string e action @ '' for user ''
                                 @ to_string e userId @ '':''), Text m]])
       (callSupabase_part000 e ''actions_log'' ''POST'' (Some (audit_record userId action payload)) []))"

section \<open>The request handler\<close>

text \<open>
  The inbound request: its method and what reading the body comes to. The stream fails
  (the \<^verbatim>\<open>error\<close> event, with the error's message), ends with no data, ends
  with text \<^verbatim>\<open>JSON.parse\<close> throws on, or ends with text that parses.
\<close>

datatype inbound =
    StreamError string
  | NoData
  | BadJson
  | Json json

record request =
  req_method :: string
  req_body :: inbound

record response =
  res_status :: nat
  res_headers :: "(string \<times> string) list"
  res_body :: "json option"

text \<open>
  A response body is the value handed to \<^verbatim>\<open>JSON.stringify\<close>; \<open>None\<close> is
  \<^verbatim>\<open>res.end()\<close> with no argument.

  A run of the handler: the response, the events of the handler up to the response in
  their order, and of the audit write what it leaves when it settles: its events
  (\<open>detached\<close>; their place among the events of the handler is not fixed, they come at
  any moment after the audit request was issued) and the rejection nothing caught
  (\<open>unhandled\<close>).
\<close>

record run =
  reply :: response
  events :: "event list"
  detached :: "event list"
  unhandled :: "string option"

definition cors_headers :: "(string \<times> string) list" where
  "cors_headers =
     [(''Access-Control-Allow-Origin'', ''*''),
      (''Access-Control-Allow-Methods'', ''POST, OPTIONS''),
      (''Access-Control-Allow-Headers'', ''Content-Type, Authorization'')]"

definition json_headers :: "(string \<times> string) list" where
  "json_headers = cors_headers @ [(''Content-Type'', ''application/json'')]"

definition error_body :: "string \<Rightarrow> json" where
  "error_body m = JObj [(''ok'', JBool False), (''error'', JStr m)]"

definition success_body :: "json \<Rightarrow> (string \<times> json option) list \<Rightarrow> json" where
  "success_body action responseData =
     JObj ((''ok'', JBool True) # (''action'', action) # stringified responseData)"

definition missing_parameters :: string where
  "missing_parameters = ''Missing required parameters: userId or action.''"

text \<open>\<^verbatim>\<open>typeof v !== 'number'\<close>, and \<^verbatim>\<open>v < 0\<close> for a number.\<close>

fun not_number :: "json option \<Rightarrow> bool" where
  "not_number (Some (JNum n)) = False"
| "not_number v = True"

fun negative :: "json option \<Rightarrow> bool" where
  "negative (Some (JNum (Finite r))) = (r < 0)"
| "negative (Some (JNum MinusInfinity)) = True"
| "negative v = False"

text \<open>
  The rest element \<^verbatim>\<open>...data\<close> of the destructuring: the body's properties but
  \<^verbatim>\<open>userId\<close> and \<^verbatim>\<open>action\<close>. It is read only after both were found
  truthy, which only an object's are.
\<close>

fun rest_data :: "json \<Rightarrow> json" where
  "rest_data (JObj kvs) = JObj [p \<leftarrow> kvs. fst p \<noteq> ''userId'' \<and> fst p \<noteq> ''action'']"
| "rest_data v = JObj []"

type_synonym outcome = "event list \<times> (string + (string \<times> json option) list)"

subsection \<open>api/index.js\<close>

fun getBody :: "inbound \<Rightarrow> string + json" where
  "getBody (StreamError m) = Inl m"
| "getBody NoData = Inr (JObj [])"
| "getBody BadJson = Inl ''Invalid JSON format in request body.''"
| "getBody (Json j) = Inr j"

definition getBalanceAndTaskStatus :: "env \<Rightarrow> json \<Rightarrow> outcome" where
  "getBalanceAndTaskStatus e userId =
     (case callSupabase e ''users'' ''GET'' None
             (''id=eq.'' @ to_string e userId @ ''&select=points,usdt,ticket,join_status,ads_left'') of
        (evs, Inl m) \<Rightarrow> (evs, Inl m)
      | (evs, Inr userData) \<Rightarrow>
          if falsy userData
          then (evs, Inl ''User data not found. Please ensure user registration/upsert is implemented.'')
          else (evs, Inr [(''points'', get_prop userData ''points''),
                          (''usdt'', get_prop userData ''usdt''),
                          (''ticket'', get_prop userData ''ticket''),
                          (''joinTaskStatus'', get_prop userData ''join_status''),
                          (''adsLeft'', get_prop userData ''ads_left'')]))"

definition addPoints :: "env \<Rightarrow> json \<Rightarrow> outcome" where
  "addPoints e data =
     (let points = get_prop data ''points'' in
      if not_number points \<or> negative points then ([], Inl ''Invalid points value.'')
      else ([], Inr [(''message'', Some (JStr (''Requested addition of '' @ to_string_u e points @ '' points.'')))]))"

definition claimTaskReward :: "env \<Rightarrow> json \<Rightarrow> outcome" where
  "claimTaskReward e data =
     (let task = get_prop data ''task''; reward = get_prop data ''reward'' in
      if task \<noteq> Some (JStr ''joinChannel'') \<or> not_number reward then ([], Inl ''Invalid task data.'')
      else ([], Inr [(''message'', Some (JStr (''Requested claim for '' @ to_string_u e reward
                                                 @ '' tickets for '' @ to_string_u e task @ ''.'')))]))"

definition watchAd :: "env \<Rightarrow> json \<Rightarrow> outcome" where
  "watchAd e data =
     (let adReward = get_prop data ''reward'' in
      if not_number adReward then ([], Inl ''Invalid ad reward.'')
      else ([], Inr [(''message'', Some (JStr (''Requested ad watch and '' @ to_string_u e adReward
                                                 @ '' ticket addition.'')))]))"

definition executeSwap :: "json \<Rightarrow> outcome" where
  "executeSwap data =
     (let newPoints = get_prop data ''newPoints''; newUsdt = get_prop data ''newUsdt'' in
      if not_number newPoints \<or> falsy_u newUsdt then ([], Inl ''Invalid swap data.'')
      else ([], Inr [(''message'', Some (JStr ''Swap request sent for processing.'')),
                     (''newPoints'', newPoints),
                     (''newUsdt'', newUsdt)]))"

text \<open>The \<^verbatim>\<open>switch (action)\<close>; the cases compare with \<^verbatim>\<open>===\<close>.\<close>

definition action_switch :: "env \<Rightarrow> json \<Rightarrow> json \<Rightarrow> json \<Rightarrow> outcome" where
  "action_switch e userId action data =
     (if action = JStr ''getBalanceAndTaskStatus'' then getBalanceAndTaskStatus e userId
      else if action = JStr ''addPoints'' then addPoints e data
      else if action = JStr ''claimTaskReward'' then claimTaskReward e data
      else if action = JStr ''watchAd'' then watchAd e data
      else if action = JStr ''executeSwap'' then executeSwap data
      else if action = JStr ''spin'' then ([], Inr [(''message'', Some (JStr ''Spin request sent.''))])
      else if action = JStr ''ref'' then ([], Inr [(''message'', Some (JStr ''Referral data requested.''))])
      else ([], Inl (''Unknown action: '' @ to_string e action)))"

text \<open>
  The \<^verbatim>\<open>try\<close> block: its events in their order, the detached audit write, and
  the error thrown or the object of the success response.
\<close>

definition try_block :: "env \<Rightarrow> inbound \<Rightarrow> event list \<times> audit_write \<times> (string + json)" where
  "try_block e inb =
     (case getBody inb of
        Inl m \<Rightarrow> ([ReadBody], no_audit, Inl m)
      | Inr JNull \<Rightarrow> ([ReadBody], no_audit, Inl (destructure_null_message e))
      | Inr b \<Rightarrow>
          (case (get_prop b ''userId'', get_prop b ''action'') of
             (Some userId, Some action) \<Rightarrow>
               if falsy userId \<or> falsy action then ([ReadBody], no_audit, Inl missing_parameters)
               else
                 (let w = logAction e userId action b in
                  case action_switch e userId action (rest_data b) of
                    (evs, Inl m) \<Rightarrow> (ReadBody # issued w @ evs, w, Inl m)
                  | (evs, Inr responseData) \<Rightarrow>
                      (ReadBody # issued w @ evs, w, Inr (success_body action responseData)))
           | _ \<Rightarrow> ([ReadBody], no_audit, Inl missing_parameters)))"

definition handler :: "env \<Rightarrow> request \<Rightarrow> run" where
  "handler e rq =
     (if req_method rq = ''OPTIONS''
      then \<lparr>reply = \<lparr>res_status = 204, res_headers = cors_headers, res_body = None\<rparr>,
            events = [], detached = [], unhandled = None\<rparr>
      else if req_method rq \<noteq> ''POST''
      then \<lparr>reply = \<lparr>res_status = 405, res_headers = json_headers,
                      res_body = Some (error_body ''Method Not Allowed. Only POST is supported.'')\<rparr>,
            events = [], detached = [], unhandled = None\<rparr>
      else
        (case try_block e (req_body rq) of
           (evs, w, Inr payload) \<Rightarrow>
             \<lparr>reply = \<lparr>res_status = 200, res_headers = json_headers, res_body = Some payload\<rparr>,
              events = evs, detached = settled w, unhandled = uncaught w\<rparr>
         | (evs, w, Inl m) \<Rightarrow>
             \<lparr>reply = \<lparr>res_status = (if str_includes m ''JSON'' \<or> str_includes m ''Missing'' then 400 else 500),
                       res_headers = json_headers, res_body = Some (error_body m)\<rparr>,
              events = evs @ [ConsoleError [Text (''Error processing request: '' @ m)]],
              detached = settled w, unhandled = uncaught w\<rparr>))"

subsection \<open>part_000\<close>

text \<open>
  \<^verbatim>\<open>part_000\<close> reads the body in a promise written inside the handler; it has no
  special case for the empty text, which \<^verbatim>\<open>JSON.parse\<close> rejects.
\<close>

fun getBody_part000 :: "inbound \<Rightarrow> string + json" where
  "getBody_part000 (StreamError m) = Inl m"
| "getBody_part000 NoData = Inl ''Invalid JSON format in request body.''"
| "getBody_part000 BadJson = Inl ''Invalid JSON format in request body.''"
| "getBody_part000 (Json j) = Inr j"

definition getBalanceAndTaskStatus_part000 :: "env \<Rightarrow> json \<Rightarrow> outcome" where
  "getBalanceAndTaskStatus_part000 e userId =
     (case callSupabase_part000 e ''users'' ''GET'' None
             (''id=eq.'' @ to_string e userId @ ''&select=points,usdt,ticket,join_status,ads_left'') of
        (evs, Inl m) \<Rightarrow> (evs, Inl m)
      | (evs, Inr userData) \<Rightarrow>
          if falsy userData
          then (evs, Inl ''User not found in DB. Please ensure user registration/upsert is handled.'')
          else (evs, Inr [(''points'', get_prop userData ''points''),
                          (''usdt'', get_prop userData ''usdt''),
                          (''ticket'', get_prop userData ''ticket''),
                          (''joinTaskStatus'', js_or (get_prop userData ''join_status'') (JStr ''join'')),
                          (''adsLeft'', js_or (get_prop userData ''ads_left'') (JNum (Finite 300)))]))"

definition addPoints_part000 :: "env \<Rightarrow> json \<Rightarrow> json \<Rightarrow> outcome" where
  "addPoints_part000 e userId data =
     (let points = get_prop data ''points'' in
      if not_number points \<or> negative points then ([], Inl ''Invalid points value.'')
      else
        (case callSupabase_part000 e ''users'' ''PATCH''
                (Some (JObj (stringified [(''points'', points)])))
                (''id=eq.'' @ to_string e userId) of
           (evs, Inl m) \<Rightarrow> (evs, Inl m)
         | (evs, Inr updatedUserPoints) \<Rightarrow>
             (evs, Inr [(''message'', Some (JStr (''Successfully added '' @ to_string_u e points @ '' points.'')))])))"

definition claimTaskReward_part000 :: "env \<Rightarrow> json \<Rightarrow> json \<Rightarrow> outcome" where
  "claimTaskReward_part000 e userId data =
     (let task = get_prop data ''task''; reward = get_prop data ''reward'' in
      if task \<noteq> Some (JStr ''joinChannel'') \<or> not_number reward
      then ([], Inl ''Invalid task or reward data.'')
      else
        (case callSupabase_part000 e ''users'' ''PATCH''
                (Some (JObj (stringified [(''ticket'', reward), (''join_status'', Some (JStr ''claimed''))])))
                (''id=eq.'' @ to_string e userId @ ''&join_status=eq.check'') of
           (evs, Inl m) \<Rightarrow> (evs, Inl m)
         | (evs, Inr updatedUserTask) \<Rightarrow>
             if falsy updatedUserTask
             then (evs, Inl ''Claim failed. Task not ready or already claimed.'')
             else (evs, Inr [(''message'', Some (JStr (''Reward of '' @ to_string_u e reward
                                     @ '' tickets claimed for '' @ to_string_u e task @ ''.'')))])))"

definition watchAd_part000 :: "env \<Rightarrow> json \<Rightarrow> json \<Rightarrow> outcome" where
  "watchAd_part000 e userId data =
     (let adReward = get_prop data ''reward'' in
      if not_number adReward then ([], Inl ''Invalid ad reward value.'')
      else
        (case callSupabase_part000 e ''users'' ''PATCH''
                (Some (JObj (stringified [(''ticket'', adReward), (''ads_left'', Some (JNum (Finite (- 1))))])))
                (''id=eq.'' @ to_string e userId @ ''&ads_left=gt.0'') of
           (evs, Inl m) \<Rightarrow> (evs, Inl m)
         | (evs, Inr updatedUserAd) \<Rightarrow>
             if falsy updatedUserAd
             then (evs, Inl ''Ad claim failed. No ads left to watch.'')
             else (evs, Inr [(''message'', Some (JStr (''Ad watched. '' @ to_string_u e adReward
                                     @ '' ticket added.'')))])))"

definition executeSwap_part000 :: "env \<Rightarrow> json \<Rightarrow> json \<Rightarrow> outcome" where
  "executeSwap_part000 e userId data =
     (let pointsToSwap = get_prop data ''points'';
          newPoints = get_prop data ''newPoints'';
          newUsdt = get_prop data ''newUsdt'' in
      if not_number pointsToSwap \<or> not_number newPoints \<or> falsy_u newUsdt
      then ([], Inl ''Invalid swap data.'')
      else
        (case callSupabase_part000 e ''users'' ''PATCH''
                (Some (JObj (stringified [(''points'', newPoints), (''usdt'', newUsdt)])))
                (''id=eq.'' @ to_string e userId) of
           (evs, Inl m) \<Rightarrow> (evs, Inl m)
         | (evs, Inr updatedUserSwap) \<Rightarrow>
             (evs, Inr [(''message'', Some (JStr ''Swap successful'')),
                        (''newPoints'', newPoints),
                        (''newUsdt'', newUsdt)])))"

definition action_switch_part000 :: "env \<Rightarrow> json \<Rightarrow> json \<Rightarrow> json \<Rightarrow> outcome" where
  "action_switch_part000 e userId action data =
     (if action = JStr ''getBalanceAndTaskStatus'' then getBalanceAndTaskStatus_part000 e userId
      else if action = JStr ''addPoints'' then addPoints_part000 e userId data
      else if action = JStr ''claimTaskReward'' then claimTaskReward_part000 e userId data
      else if action = JStr ''watchAd'' then watchAd_part000 e userId data
      else if action = JStr ''executeSwap'' then executeSwap_part000 e userId data
      else if action = JStr ''spin''
      then ([], Inr [(''message'', Some (JStr ''Spin executed successfully, checking for reward...''))])
      else if action = JStr ''ref''
      then ([], Inr [(''message'', Some (JStr ''Referral menu data prepared.''))])
      else ([], Inl (''Unknown action: '' @ to_string e action)))"

definition try_block_part000 :: "env \<Rightarrow> inbound \<Rightarrow> event list \<times> audit_write \<times> (string + json)" where
  "try_block_part000 e inb =
     (case getBody_part000 inb of
        Inl m \<Rightarrow> ([ReadBody], no_audit, Inl m)
      | Inr JNull \<Rightarrow> ([ReadBody], no_audit, Inl (destructure_null_message e))
      | Inr b \<Rightarrow>
          (case (get_prop b ''userId'', get_prop b ''action'') of
             (Some userId, Some action) \<Rightarrow>
               if falsy userId \<or> falsy action then ([ReadBody], no_audit, Inl missing_parameters)
               else
                 (let w = logAction_part000 e userId action b in
                  case action_switch_part000 e userId action (rest_data b) of
                    (evs, Inl m) \<Rightarrow> (ReadBody # issued w @ evs, w, Inl m)
                  | (evs, Inr responseData) \<Rightarrow>
                      (ReadBody # issued w @ evs, w, Inr (success_body action responseData)))
           | _ \<Rightarrow> ([ReadBody], no_audit, Inl missing_parameters)))"

definition handler_part000 :: "env \<Rightarrow> request \<Rightarrow> run" where
  "handler_part000 e rq =
     (if req_method rq = ''OPTIONS''
      then \<lparr>reply = \<lparr>res_status = 204, res_headers = cors_headers, res_body = None\<rparr>,
            events = [], detached = [], unhandled = None\<rparr>
      else if req_method rq \<noteq> ''POST''
      then \<lparr>reply = \<lparr>res_status = 405, res_headers = json_headers,
                      res_body = Some (error_body ''Method Not Allowed. Only POST is supported.'')\<rparr>,
            events = [], detached = [], unhandled = None\<rparr>
      else
        (case try_block_part000 e (req_body rq) of
           (evs, w, Inr payload) \<Rightarrow>
             \<lparr>reply = \<lparr>res_status = 200, res_headers = json_headers, res_body = Some payload\<rparr>,
              events = evs, detached = settled w, unhandled = uncaught w\<rparr>
         | (evs, w, Inl m) \<Rightarrow>
             \<lparr>reply = \<lparr>res_status = 500,
                       res_headers = json_headers, res_body = Some (error_body m)\<rparr>,
              events = evs @ [ConsoleError [Text (''Error processing request: '' @ m)]],
              detached = settled w, unhandled = uncaught w\<rparr>))"

section \<open>Sample requests and worlds\<close>

text \<open>
  Concrete inputs the theorems below are run on: a POST carrying a parsed body, a
  configured world whose remote service answers every request with the response \<open>r\<close>
  (its engine is V8, the engine of Node.js, with V8's message for the destructuring of
  \<^verbatim>\<open>null\<close>), and the answer of the remote service when a filter matches no row.

  The number text of the sample worlds is \<open>integer_digits\<close>: the decimal digits every
  engine gives an integer of magnitude below \<open>10^21\<close>, and the names of the infinities.
  The sample requests hold no other number; for one, \<open>integer_digits\<close> is the empty
  text, which no engine gives.
\<close>

definition digit :: "nat \<Rightarrow> char" where
  "digit d = ''0123456789'' ! d"

fun show_nat :: "nat \<Rightarrow> string" where
  "show_nat n = (if n < 10 then [digit n] else show_nat (n div 10) @ [digit (n mod 10)])"

declare show_nat.simps [simp del]

definition integer_digits :: "number \<Rightarrow> string" where
  "integer_digits n =
     (case n of
        PlusInfinity \<Rightarrow> ''Infinity''
      | MinusInfinity \<Rightarrow> ''-Infinity''
      | Finite r \<Rightarrow>
          if r = of_int \<lfloor>r\<rfloor> \<and> \<bar>r\<bar> < 10 ^ 21
          then (if r < 0 then CHR ''-'' # show_nat (nat (- \<lfloor>r\<rfloor>)) else show_nat (nat \<lfloor>r\<rfloor>))
          else [])"

definition post :: "json \<Rightarrow> request" where
  "post b = \<lparr>req_method = ''POST'', req_body = Json b\<rparr>"

definition answering :: "http_response \<Rightarrow> env" where
  "answering r =
     \<lparr>SUPABASE_URL = Some ''https://db.example'',
      SUPABASE_ANON_KEY = Some ''anon-key'',
      fetch = (\<lambda>q. Responded r),
      number_text = integer_digits,
      destructure_null_message = ''Cannot destructure property 'userId' of 'body' as it is null.''\<rparr>"

definition empty_rowset :: http_response where
  "empty_rowset = \<lparr>status = 200, body_text = Inr ''[]'', body_json = Inr (JArr [])\<rparr>"

definition no_content :: http_response where
  "no_content = \<lparr>status = 204, body_text = Inr [], body_json = Inl ''Unexpected end of JSON input''\<rparr>"

definition one_row :: http_response where
  "one_row = \<lparr>status = 200, body_text = Inr ''[{}]'', body_json = Inr (JArr [JObj []])\<rparr>"

text \<open>An answer that is no JSON: an HTML page sent with status 200.\<close>

definition html_page :: http_response where
  "html_page = \<lparr>status = 200, body_text = Inr ''<html></html>'',
                body_json = Inl ''Unexpected token < in JSON at position 0''\<rparr>"




section \<open>The validation the specification describes\<close>




section \<open>Facts about the handler\<close>

lemma includes_missing: "str_includes missing_parameters ''Missing''"
  by (simp add: missing_parameters_def)

lemma try_block_rejects:
  assumes "b \<noteq> JNull"
    and "falsy_u (get_prop b ''userId'') \<or> falsy_u (get_prop b ''action'')"
  shows "try_block e (Json b) = ([ReadBody], no_audit, Inl missing_parameters)"
  using assms
  by (cases b; cases "get_prop b ''userId''"; cases "get_prop b ''action''")
     (auto simp: try_block_def)

lemma try_block_part000_rejects:
  assumes "b \<noteq> JNull"
    and "falsy_u (get_prop b ''userId'') \<or> falsy_u (get_prop b ''action'')"
  shows "try_block_part000 e (Json b) = ([ReadBody], no_audit, Inl missing_parameters)"
  using assms
  by (cases b; cases "get_prop b ''userId''"; cases "get_prop b ''action''")
     (auto simp: try_block_part000_def)





section \<open>The method gate\<close>

text \<open>
  Claim C9. The method gate is exhaustive. A request with method \<^verbatim>\<open>OPTIONS\<close> is
  answered with status 204, no body and the three CORS headers
  (\<^verbatim>\<open>Access-Control-Allow-Origin: *\<close>, \<^verbatim>\<open>Access-Control-Allow-Methods: POST, OPTIONS\<close>,
  \<^verbatim>\<open>Access-Control-Allow-Headers: Content-Type, Authorization\<close>); a request with any
  method other than \<^verbatim>\<open>POST\<close> and \<^verbatim>\<open>OPTIONS\<close> is answered with status 405, the
  same three headers, the content type and the error envelope. In both cases the run has
  no event, of the handler or detached: the body is not read, nothing is written to the audit log and
  the gateway is not called. Both revisions.
\<close>

theorem method_gate:
  "(req_method rq = ''OPTIONS'' \<longrightarrow>
      handler e rq =
        \<lparr>reply = \<lparr>res_status = 204,
                  res_headers = [(''Access-Control-Allow-Origin'', ''*''),
                                 (''Access-Control-Allow-Methods'', ''POST, OPTIONS''),
                                 (''Access-Control-Allow-Headers'', ''Content-Type, Authorization'')],
                  res_body = None\<rparr>,
         events = [], detached = [], unhandled = None\<rparr>
      \<and> handler_part000 e rq =
        \<lparr>reply = \<lparr>res_status = 204,
                  res_headers = [(''Access-Control-Allow-Origin'', ''*''),
                                 (''Access-Control-Allow-Methods'', ''POST, OPTIONS''),
                                 (''Access-Control-Allow-Headers'', ''Content-Type, Authorization'')],
                  res_body = None\<rparr>,
         events = [], detached = [], unhandled = None\<rparr>)
   \<and> (req_method rq \<noteq> ''POST'' \<and> req_method rq \<noteq> ''OPTIONS'' \<longrightarrow>
      handler e rq =
        \<lparr>reply = \<lparr>res_status = 405,
                  res_headers = [(''Access-Control-Allow-Origin'', ''*''),
                                 (''Access-Control-Allow-Methods'', ''POST, OPTIONS''),
                                 (''Access-Control-Allow-Headers'', ''Content-Type, Authorization''),
                                 (''Content-Type'', ''application/json'')],
                  res_body = Some (JObj [(''ok'', JBool False),
                                         (''error'', JStr ''Method Not Allowed. Only POST is supported.'')])\<rparr>,
         events = [], detached = [], unhandled = None\<rparr>
      \<and> handler_part000 e rq =
        \<lparr>reply = \<lparr>res_status = 405,
                  res_headers = [(''Access-Control-Allow-Origin'', ''*''),
                                 (''Access-Control-Allow-Methods'', ''POST, OPTIONS''),
                                 (''Access-Control-Allow-Headers'', ''Content-Type, Authorization''),
                                 (''Content-Type'', ''application/json'')],
                  res_body = Some (JObj [(''ok'', JBool False),
                                         (''error'', JStr ''Method Not Allowed. Only POST is supported.'')])\<rparr>,
         events = [], detached = [], unhandled = None\<rparr>)"
  by (simp add: handler_def handler_part000_def json_headers_def cors_headers_def error_body_def)

theorem method_gate_witness:
  "handler (answering empty_rowset) \<lparr>req_method = ''OPTIONS'', req_body = NoData\<rparr> =
        \<lparr>reply = \<lparr>res_status = 204,
                  res_headers = [(''Access-Control-Allow-Origin'', ''*''),
                                 (''Access-Control-Allow-Methods'', ''POST, OPTIONS''),
                                 (''Access-Control-Allow-Headers'', ''Content-Type, Authorization'')],
                  res_body = None\<rparr>,
         events = [], detached = [], unhandled = None\<rparr>
   \<and> handler_part000 (answering empty_rowset) \<lparr>req_method = ''GET'', req_body = NoData\<rparr> =
        \<lparr>reply = \<lparr>res_status = 405,
                  res_headers = [(''Access-Control-Allow-Origin'', ''*''),
                                 (''Access-Control-Allow-Methods'', ''POST, OPTIONS''),
                                 (''Access-Control-Allow-Headers'', ''Content-Type, Authorization''),
                                 (''Content-Type'', ''application/json'')],
                  res_body = Some (JObj [(''ok'', JBool False),
                                         (''error'', JStr ''Method Not Allowed. Only POST is supported.'')])\<rparr>,
         events = [], detached = [], unhandled = None\<rparr>"
proof -
  have o: "req_method \<lparr>req_method = ''OPTIONS'', req_body = NoData\<rparr> = ''OPTIONS''"
    by simp
  have g: "req_method \<lparr>req_method = ''GET'', req_body = NoData\<rparr> \<noteq> ''POST''
           \<and> req_method \<lparr>req_method = ''GET'', req_body = NoData\<rparr> \<noteq> ''OPTIONS''"
    by simp
  from method_gate [of "\<lparr>req_method = ''OPTIONS'', req_body = NoData\<rparr>" "answering empty_rowset"] o
    method_gate [of "\<lparr>req_method = ''GET'', req_body = NoData\<rparr>" "answering empty_rowset"] g
  show ?thesis by blast
qed

section \<open>Required parameters\<close>

text \<open>
  Claim C10. A POST body in which \<^verbatim>\<open>userId\<close> or \<^verbatim>\<open>action\<close> is present but
  falsy (\<^verbatim>\<open>0\<close>, the empty string, \<^verbatim>\<open>false\<close>, \<^verbatim>\<open>null\<close>) is rejected with
  the error "Missing required parameters: userId or action.", and the whole run (response
  and events) is the one of the same body with that field left out: the check tests
  truthiness, not presence. Both revisions; the status is 400 in \<^verbatim>\<open>api/index.js\<close> and
  500 in \<^verbatim>\<open>part_000\<close>.
\<close>

theorem falsy_field_rejected:
  assumes "k = ''userId'' \<or> k = ''action''"
    and "map_of kvs k = Some v"
    and "falsy v"
  shows "handler e (post (JObj kvs)) =
           \<lparr>reply = \<lparr>res_status = 400, res_headers = json_headers,
                     res_body = Some (error_body ''Missing required parameters: userId or action.'')\<rparr>,
            events = [ReadBody,
              ConsoleError [Text ''Error processing request: Missing required parameters: userId or action.'']],
            detached = [], unhandled = None\<rparr>
         \<and> handler e (post (JObj [p \<leftarrow> kvs. fst p \<noteq> k])) = handler e (post (JObj kvs))
         \<and> handler_part000 e (post (JObj kvs)) =
           \<lparr>reply = \<lparr>res_status = 500, res_headers = json_headers,
                     res_body = Some (error_body ''Missing required parameters: userId or action.'')\<rparr>,
            events = [ReadBody,
              ConsoleError [Text ''Error processing request: Missing required parameters: userId or action.'']],
            detached = [], unhandled = None\<rparr>
         \<and> handler_part000 e (post (JObj [p \<leftarrow> kvs. fst p \<noteq> k])) = handler_part000 e (post (JObj kvs))"
proof -
  have absent: "map_of [p \<leftarrow> kvs. fst p \<noteq> k] k = None"
    by (induction kvs) auto
  have f1: "falsy_u (get_prop (JObj kvs) ''userId'') \<or> falsy_u (get_prop (JObj kvs) ''action'')"
    using assms by auto
  have f2: "falsy_u (get_prop (JObj [p \<leftarrow> kvs. fst p \<noteq> k]) ''userId'')
            \<or> falsy_u (get_prop (JObj [p \<leftarrow> kvs. fst p \<noteq> k]) ''action'')"
    using assms(1) absent by auto
  have m: "str_includes missing_parameters ''Missing''"
    by (rule includes_missing)
  show ?thesis
    using m by (simp add: handler_def handler_part000_def post_def no_audit_def
        try_block_rejects [OF _ f1] try_block_rejects [OF _ f2]
        try_block_part000_rejects [OF _ f1] try_block_part000_rejects [OF _ f2])
      (simp add: missing_parameters_def)
qed

theorem falsy_field_rejected_witness:
  "handler (answering empty_rowset) (post (JObj [(''userId'', JNum (Finite 0)), (''action'', JStr ''spin'')])) =
     \<lparr>reply = \<lparr>res_status = 400, res_headers = json_headers,
               res_body = Some (error_body ''Missing required parameters: userId or action.'')\<rparr>,
      events = [ReadBody,
        ConsoleError [Text ''Error processing request: Missing required parameters: userId or action.'']],
      detached = [], unhandled = None\<rparr>
   \<and> handler (answering empty_rowset) (post (JObj [(''action'', JStr ''spin'')]))
     = handler (answering empty_rowset) (post (JObj [(''userId'', JNum (Finite 0)), (''action'', JStr ''spin'')]))"
proof -
  have "map_of [(''userId'', JNum (Finite 0)), (''action'', JStr ''spin'')] ''userId'' = Some (JNum (Finite 0))"
    and "falsy (JNum (Finite 0))"
    by simp_all
  from falsy_field_rejected [OF disjI1 this, OF refl, of "answering empty_rowset"]
  show ?thesis by simp
qed

text \<open>
  A body other than \<^verbatim>\<open>null\<close> that lacks \<^verbatim>\<open>userId\<close> or \<^verbatim>\<open>action\<close>
  (an object without the field, the empty object read for an empty body, a string, an
  array, a number, a boolean) is answered with the missing-parameters error, status 400 in
  \<^verbatim>\<open>api/index.js\<close> and 500 in \<^verbatim>\<open>part_000\<close>.
\<close>

lemma missing_field_rejected:
  assumes "b \<noteq> JNull"
    and "get_prop b ''userId'' = None \<or> get_prop b ''action'' = None"
  shows "reply (handler e (post b)) =
           \<lparr>res_status = 400, res_headers = json_headers,
            res_body = Some (error_body ''Missing required parameters: userId or action.'')\<rparr>"
    and "reply (handler_part000 e (post b)) =
           \<lparr>res_status = 500, res_headers = json_headers,
            res_body = Some (error_body ''Missing required parameters: userId or action.'')\<rparr>"
proof -
  from assms(2) have f: "falsy_u (get_prop b ''userId'') \<or> falsy_u (get_prop b ''action'')"
    by auto
  show "reply (handler e (post b)) =
           \<lparr>res_status = 400, res_headers = json_headers,
            res_body = Some (error_body ''Missing required parameters: userId or action.'')\<rparr>"
    using includes_missing
    by (simp add: handler_def post_def try_block_rejects [OF assms(1) f]) (simp add: missing_parameters_def)
  show "reply (handler_part000 e (post b)) =
           \<lparr>res_status = 500, res_headers = json_headers,
            res_body = Some (error_body ''Missing required parameters: userId or action.'')\<rparr>"
    by (simp add: handler_part000_def post_def try_block_part000_rejects [OF assms(1) f])
      (simp add: missing_parameters_def)
qed

lemma empty_body_rejected:
  "reply (handler e \<lparr>req_method = ''POST'', req_body = NoData\<rparr>) =
     \<lparr>res_status = 400, res_headers = json_headers,
      res_body = Some (error_body ''Missing required parameters: userId or action.'')\<rparr>"
  using includes_missing
  by (simp add: handler_def try_block_def) (simp add: missing_parameters_def)

text \<open>
  The body \<^verbatim>\<open>null\<close>: the destructuring throws before the check. Whatever the
  engine's message is, it is the error of the response, in both revisions; a message with
  neither "JSON" nor "Missing" in it gives status 500.
\<close>

lemma null_body_status:
  "reply (handler e (post JNull)) =
     \<lparr>res_status = (if str_includes (destructure_null_message e) ''JSON''
                        \<or> str_includes (destructure_null_message e) ''Missing'' then 400 else 500),
      res_headers = json_headers, res_body = Some (error_body (destructure_null_message e))\<rparr>"
  "reply (handler_part000 e (post JNull)) =
     \<lparr>res_status = 500, res_headers = json_headers,
      res_body = Some (error_body (destructure_null_message e))\<rparr>"
  by (simp_all add: handler_def handler_part000_def try_block_def try_block_part000_def post_def)

text \<open>
  Claim C3: every POST body that parses as JSON but lacks \<^verbatim>\<open>userId\<close> or
  \<^verbatim>\<open>action\<close> is answered \<^verbatim>\<open>ok:false\<close> with the missing-parameters message
  and a 4xx status (in \<^verbatim>\<open>api/index.js\<close>). The code does not do so for the body
  \<^verbatim>\<open>null\<close>, which parses as JSON and has neither field: the destructuring throws
  a TypeError before the check \<^verbatim>\<open>!userId || !action\<close> is reached, and the response
  is status 500 with the engine's message. Every other body that lacks a field gets the
  missing-parameters error (\<open>missing_field_rejected\<close>, \<open>empty_body_rejected\<close>).
\<close>

theorem null_body_not_rejected_as_missing:
  "handler (answering empty_rowset) (post JNull) =
     \<lparr>reply = \<lparr>res_status = 500, res_headers = json_headers,
               res_body = Some (JObj [(''ok'', JBool False),
                 (''error'', JStr ''Cannot destructure property 'userId' of 'body' as it is null.'')])\<rparr>,
      events = [ReadBody,
        ConsoleError [Text ''Error processing request: Cannot destructure property 'userId' of 'body' as it is null.'']],
      detached = [], unhandled = None\<rparr>"
  by (simp add: handler_def try_block_def post_def answering_def no_audit_def error_body_def)

text \<open>
  The status test looks for the texts "JSON" and "Missing" anywhere in the message. The
  message of a failed gateway call holds the message of the underlying error, so an
  upstream answer that is not JSON (here an HTML page answered with status 200 to the
  account query) is reported to the client with status 400.
\<close>

lemma upstream_failure_status_400:
  "reply (handler (answering html_page)
       (post (JObj [(''userId'', JStr ''u7''), (''action'', JStr ''getBalanceAndTaskStatus'')]))) =
     \<lparr>res_status = 400, res_headers = json_headers,
      res_body = Some (error_body
        ''Database operation failed: Unexpected token < in JSON at position 0'')\<rparr>"
  by (simp add: handler_def post_def try_block_def action_switch_def getBalanceAndTaskStatus_def
      callSupabase_def db_failed_def answering_def html_page_def ok_def Let_def)

section \<open>The gateway\<close>

lemma callSupabase_answered:
  assumes "\<not> unset (SUPABASE_URL e)" "\<not> unset (SUPABASE_ANON_KEY e)"
    and "fetch e (supabase_request e table method b flt) = Responded r" "ok r"
  shows "snd (callSupabase e table method b flt) =
           (if status r = 204 then Inr success_marker
            else case body_json r of
                   Inl m \<Rightarrow> Inl (''Database operation failed: '' @ m)
                 | Inr j \<Rightarrow> Inr (case j of JArr [x] \<Rightarrow> x | _ \<Rightarrow> j))"
  using assms by (simp add: callSupabase_def db_failed_def Let_def split: sum.splits)

lemma callSupabase_part000_answered:
  assumes "fetch e (supabase_request_part000 e table method b flt) = Responded r" "ok r"
  shows "snd (callSupabase_part000 e table method b flt) =
           (if status r = 204 then Inr success_marker
            else case body_json r of
                   Inl m \<Rightarrow> Inl (''Database operation failed: '' @ m)
                 | Inr j \<Rightarrow> Inr (case j of JArr [x] \<Rightarrow> x | _ \<Rightarrow> j))"
  using assms by (simp add: callSupabase_part000_def db_failed_def Let_def split: sum.splits)

lemma unwrap_other: "\<forall>x. j \<noteq> JArr [x] \<Longrightarrow> (case j of JArr [x] \<Rightarrow> x | _ \<Rightarrow> j) = j"
  by (auto split: json.splits list.splits)

text \<open>
  Claim C4. When the remote service answers a gateway call with a successful response
  (\<^verbatim>\<open>response.ok\<close>): a 204 gives the success marker \<^verbatim>\<open>{success: true, data: null}\<close>;
  a JSON body that is an array of exactly one element gives that element; every other
  parsed body (an empty array, a longer array, a value that is no array) is returned as it
  is. Both revisions; in \<^verbatim>\<open>api/index.js\<close> the call reaches the service only when
  both secrets are set.
\<close>

theorem response_normalised:
  assumes "ok r"
    and "result = snd (callSupabase e table method b flt)
           \<and> \<not> unset (SUPABASE_URL e) \<and> \<not> unset (SUPABASE_ANON_KEY e)
           \<and> fetch e (supabase_request e table method b flt) = Responded r
         \<or> result = snd (callSupabase_part000 e table method b flt)
           \<and> fetch e (supabase_request_part000 e table method b flt) = Responded r"
  shows "(status r = 204 \<longrightarrow> result = Inr (JObj [(''success'', JBool True), (''data'', JNull)]))
       \<and> (status r \<noteq> 204 \<and> body_json r = Inr (JArr [x]) \<longrightarrow> result = Inr x)
       \<and> (status r \<noteq> 204 \<and> body_json r = Inr j \<and> (\<forall>y. j \<noteq> JArr [y]) \<longrightarrow> result = Inr j)"
proof -
  have "result = (if status r = 204 then Inr success_marker
            else case body_json r of
                   Inl m \<Rightarrow> Inl (''Database operation failed: '' @ m)
                 | Inr j \<Rightarrow> Inr (case j of JArr [x] \<Rightarrow> x | _ \<Rightarrow> j))"
    using assms callSupabase_answered callSupabase_part000_answered by blast
  then show ?thesis
    by (simp add: success_marker_def unwrap_other)
qed

theorem response_normalised_witness:
  "snd (callSupabase (answering no_content) ''actions_log'' ''POST'' (Some (JObj [])) [])
     = Inr (JObj [(''success'', JBool True), (''data'', JNull)])
   \<and> snd (callSupabase (answering one_row) ''users'' ''GET'' None ''id=eq.7'') = Inr (JObj [])
   \<and> snd (callSupabase (answering empty_rowset) ''users'' ''GET'' None ''id=eq.7'') = Inr (JArr [])
   \<and> snd (callSupabase_part000 (answering one_row) ''users'' ''GET'' None ''id=eq.7'') = Inr (JObj [])
   \<and> snd (callSupabase_part000 (answering empty_rowset) ''users'' ''GET'' None ''id=eq.7'') = Inr (JArr [])"
proof -
  have o: "ok no_content" "ok one_row" "ok empty_rowset"
    by (simp_all add: ok_def no_content_def one_row_def empty_rowset_def)
  have c: "\<not> unset (SUPABASE_URL (answering r))" "\<not> unset (SUPABASE_ANON_KEY (answering r))"
    "fetch (answering r) q = Responded r" for r q
    by (simp_all add: answering_def)
  have s: "status no_content = 204" "status one_row \<noteq> 204 \<and> body_json one_row = Inr (JArr [JObj []])"
    "status empty_rowset \<noteq> 204 \<and> body_json empty_rowset = Inr (JArr []) \<and> (\<forall>y. JArr [] \<noteq> JArr [y])"
    by (simp_all add: no_content_def one_row_def empty_rowset_def)
  have 1: "snd (callSupabase (answering no_content) ''actions_log'' ''POST'' (Some (JObj [])) [])
     = Inr (JObj [(''success'', JBool True), (''data'', JNull)])"
    using response_normalised [OF o(1) disjI1, OF conjI [OF refl], of "answering no_content"] c s(1)
    by blast
  have 2: "snd (callSupabase (answering one_row) ''users'' ''GET'' None ''id=eq.7'') = Inr (JObj [])"
    using response_normalised [OF o(2) disjI1, OF conjI [OF refl], of "answering one_row"] c s(2)
    by blast
  have 3: "snd (callSupabase (answering empty_rowset) ''users'' ''GET'' None ''id=eq.7'') = Inr (JArr [])"
    using response_normalised [OF o(3) disjI1, OF conjI [OF refl], of "answering empty_rowset"] c s(3)
    by blast
  have 4: "snd (callSupabase_part000 (answering one_row) ''users'' ''GET'' None ''id=eq.7'') = Inr (JObj [])"
    using response_normalised [OF o(2) disjI2, OF conjI [OF refl], of "answering one_row"] c s(2)
    by blast
  have 5: "snd (callSupabase_part000 (answering empty_rowset) ''users'' ''GET'' None ''id=eq.7'') = Inr (JArr [])"
    using response_normalised [OF o(3) disjI2, OF conjI [OF refl], of "answering empty_rowset"] c s(3)
    by blast
  from 1 2 3 4 5 show ?thesis by blast
qed

text \<open>
  The \<^verbatim>\<open>Prefer\<close> header of a request built by \<^verbatim>\<open>api/index.js\<close>:
  \<^verbatim>\<open>return=minimal\<close> exactly for a POST to the audit-log table,
  \<^verbatim>\<open>return=representation\<close> for every other POST or PATCH, none otherwise.
\<close>

lemma prefer_header_index:
  "map_of (headers (supabase_request e table method b flt)) ''Prefer'' =
     (if method = ''POST'' \<and> table = ''actions_log'' then Some ''return=minimal''
      else if method = ''PATCH'' \<or> method = ''POST'' then Some ''return=representation''
      else None)"
  by (simp add: supabase_request_def base_headers_def)

text \<open>
  Claim C6: the \<^verbatim>\<open>Prefer\<close> header is \<^verbatim>\<open>return=minimal\<close> exactly for a POST to
  the audit-log table. \<^verbatim>\<open>api/index.js\<close> does so (\<open>prefer_header_index\<close>). In
  \<^verbatim>\<open>part_000\<close> the second \<^verbatim>\<open>if\<close> is not an \<^verbatim>\<open>else if\<close> and overwrites the
  header the first one has set: a POST to the audit-log table carries
  \<^verbatim>\<open>return=representation\<close>, whatever the world, the body and the filter.
\<close>

theorem audit_insert_prefer_part000:
  "map_of (headers (supabase_request_part000 e ''actions_log'' ''POST'' b flt)) ''Prefer''
     = Some ''return=representation''"
  by (simp add: supabase_request_part000_def base_headers_def)

text \<open>
  Claim C7, as amended. In \<^verbatim>\<open>api/index.js\<close> a gateway call made while either secret
  is absent (not set, or the empty string) fails with the error "Supabase credentials are
  not configured." and issues no outbound request. \<^verbatim>\<open>part_000\<close> has no such check:
  each of its gateway calls hands exactly one request to \<open>fetch\<close>, the text
  \<^verbatim>\<open>undefined\<close> standing where the missing secret would.
\<close>

theorem credentials_check:
  "(unset (SUPABASE_URL e) \<or> unset (SUPABASE_ANON_KEY e) \<longrightarrow>
      callSupabase e table method b flt = ([], Inl ''Supabase credentials are not configured.''))
   \<and> gateway_calls (fst (callSupabase_part000 e table method b flt))
       = [supabase_request_part000 e table method b flt]"
  by (auto simp: callSupabase_def callSupabase_part000_def db_failed_def Let_def
      split: fetch_result.splits sum.splits)

theorem credentials_check_witness:
  "callSupabase ((answering empty_rowset)\<lparr>SUPABASE_ANON_KEY := None\<rparr>) ''users'' ''GET'' None ''id=eq.7''
     = ([], Inl ''Supabase credentials are not configured.'')"
proof -
  have "unset (SUPABASE_URL ((answering empty_rowset)\<lparr>SUPABASE_ANON_KEY := None\<rparr>))
        \<or> unset (SUPABASE_ANON_KEY ((answering empty_rowset)\<lparr>SUPABASE_ANON_KEY := None\<rparr>))"
    by simp
  with credentials_check [of "(answering empty_rowset)\<lparr>SUPABASE_ANON_KEY := None\<rparr>"
      "''users''" "''GET''" None "''id=eq.7''"]
  show ?thesis by blast
qed

theorem no_check_part000_counterexample:
  "callSupabase_part000 ((answering empty_rowset)\<lparr>SUPABASE_ANON_KEY := None\<rparr>)
       ''users'' ''GET'' None ''id=eq.7'' =
     ([Fetch \<lparr>url = ''https://db.example/rest/v1/users?id=eq.7'', http_method = ''GET'',
              headers = [(''apikey'', ''undefined''), (''Authorization'', ''Bearer undefined''),
                         (''Content-Type'', ''application/json''), (''Accept'', ''application/json'')],
              body = None\<rparr>],
      Inr (JArr []))"
  by (simp add: callSupabase_part000_def supabase_request_part000_def answering_def
      empty_rowset_def base_headers_def request_url_def ok_def)

section \<open>The detached audit write\<close>








section \<open>Validation and the gateway\<close>






section \<open>The audit write does not reach the client\<close>





















section \<open>Handlers that test a row-set for truthiness\<close>

text \<open>
  Whenever the remote service answers the account query with an empty array, the handler
  builds its payload from the array: the not-found error is not thrown.
\<close>

lemma getBalance_empty_rowset:
  assumes "\<not> unset (SUPABASE_URL e)" "\<not> unset (SUPABASE_ANON_KEY e)"
    and "fetch e (supabase_request e ''users'' ''GET'' None
           (''id=eq.'' @ to_string e u @ ''&select=points,usdt,ticket,join_status,ads_left'')) = Responded r"
    and "ok r" "status r \<noteq> 204" "body_json r = Inr (JArr [])"
  shows "snd (getBalanceAndTaskStatus e u) =
           Inr [(''points'', None), (''usdt'', None), (''ticket'', None),
                (''joinTaskStatus'', None), (''adsLeft'', None)]"
  using assms by (simp add: getBalanceAndTaskStatus_def callSupabase_def Let_def)

lemma getBalance_part000_empty_rowset:
  assumes "fetch e (supabase_request_part000 e ''users'' ''GET'' None
           (''id=eq.'' @ to_string e u @ ''&select=points,usdt,ticket,join_status,ads_left'')) = Responded r"
    and "ok r" "status r \<noteq> 204" "body_json r = Inr (JArr [])"
  shows "snd (getBalanceAndTaskStatus_part000 e u) =
           Inr [(''points'', None), (''usdt'', None), (''ticket'', None),
                (''joinTaskStatus'', Some (JStr ''join'')), (''adsLeft'', Some (JNum (Finite 300)))]"
  using assms by (simp add: getBalanceAndTaskStatus_part000_def callSupabase_part000_def Let_def)

lemma integer_digits_small:
  "integer_digits (Finite 7) = ''7''" "integer_digits (Finite 5) = ''5''"
  by (simp_all add: integer_digits_def show_nat.simps digit_def)

text \<open>
  Claim C1: a \<^verbatim>\<open>getBalanceAndTaskStatus\<close> request whose \<^verbatim>\<open>userId\<close> matches no
  account row is answered \<^verbatim>\<open>ok:false\<close>. The code does not do so. The remote service
  answers a filter that matches nothing with status 200 and the empty array, the gateway
  hands an empty array on as it is, and an array is truthy, so \<^verbatim>\<open>!userData\<close> is
  false: both revisions answer 200 and \<^verbatim>\<open>ok:true\<close>, every field read from the
  array being \<^verbatim>\<open>undefined\<close> (left out of the JSON text, or replaced by its default in
  \<^verbatim>\<open>part_000\<close>).
\<close>

theorem empty_rowset_reported_ok:
  "reply (handler (answering empty_rowset)
          (post (JObj [(''userId'', JNum (Finite 7)), (''action'', JStr ''getBalanceAndTaskStatus'')]))) =
     \<lparr>res_status = 200, res_headers = json_headers,
      res_body = Some (JObj [(''ok'', JBool True), (''action'', JStr ''getBalanceAndTaskStatus'')])\<rparr>
   \<and> reply (handler_part000 (answering empty_rowset)
          (post (JObj [(''userId'', JNum (Finite 7)), (''action'', JStr ''getBalanceAndTaskStatus'')]))) =
     \<lparr>res_status = 200, res_headers = json_headers,
      res_body = Some (JObj [(''ok'', JBool True), (''action'', JStr ''getBalanceAndTaskStatus''),
                             (''joinTaskStatus'', JStr ''join''), (''adsLeft'', JNum (Finite 300))])\<rparr>"
  by (simp add: handler_def handler_part000_def post_def try_block_def try_block_part000_def
      action_switch_def action_switch_part000_def getBalanceAndTaskStatus_def
      getBalanceAndTaskStatus_part000_def callSupabase_def callSupabase_part000_def
      answering_def empty_rowset_def ok_def success_body_def Let_def)

text \<open>
  Claim C2: a \<^verbatim>\<open>watchAd\<close> request with a numeric reward against an account with no
  ads left fails. The code does not do so. In \<^verbatim>\<open>part_000\<close> the PATCH is filtered by
  \<^verbatim>\<open>ads_left=gt.0\<close>, the remote service answers the update of no row with the empty
  array, and \<^verbatim>\<open>!updatedUserAd\<close> is false on an array: the response is 200 and
  \<^verbatim>\<open>ok:true\<close>. In \<^verbatim>\<open>api/index.js\<close> the PATCH is a comment and the handler
  answers \<^verbatim>\<open>ok:true\<close> after the audit write alone.
\<close>

theorem no_ads_left_reported_ok:
  "handler_part000 (answering empty_rowset)
      (post (JObj [(''userId'', JNum (Finite 7)), (''action'', JStr ''watchAd''), (''reward'', JNum (Finite 5))])) =
     \<lparr>reply = \<lparr>res_status = 200, res_headers = json_headers,
               res_body = Some (JObj [(''ok'', JBool True), (''action'', JStr ''watchAd''),
                                      (''message'', JStr ''Ad watched. 5 ticket added.'')])\<rparr>,
      events = [ReadBody,
       Fetch \<lparr>url = ''https://db.example/rest/v1/actions_log'', http_method = ''POST'',
              headers = [(''apikey'', ''anon-key''), (''Authorization'', ''Bearer anon-key''),
                         (''Content-Type'', ''application/json''), (''Accept'', ''application/json''),
                         (''Prefer'', ''return=representation'')],
              body = Some (JObj [(''action'', JStr ''watchAd''), (''user_id'', JNum (Finite 7)),
                                 (''payload'', JObj [(''userId'', JNum (Finite 7)), (''action'', JStr ''watchAd''),
                                                    (''reward'', JNum (Finite 5))])])\<rparr>,
       Fetch \<lparr>url = ''https://db.example/rest/v1/users?id=eq.7&ads_left=gt.0'', http_method = ''PATCH'',
              headers = [(''apikey'', ''anon-key''), (''Authorization'', ''Bearer anon-key''),
                         (''Content-Type'', ''application/json''), (''Accept'', ''application/json''),
                         (''Prefer'', ''return=representation'')],
              body = Some (JObj [(''ticket'', JNum (Finite 5)), (''ads_left'', JNum (Finite (- 1)))])\<rparr>],
      detached = [], unhandled = None\<rparr>
   \<and> handler (answering empty_rowset)
      (post (JObj [(''userId'', JNum (Finite 7)), (''action'', JStr ''watchAd''), (''reward'', JNum (Finite 5))])) =
     \<lparr>reply = \<lparr>res_status = 200, res_headers = json_headers,
               res_body = Some (JObj [(''ok'', JBool True), (''action'', JStr ''watchAd''),
                                      (''message'', JStr ''Requested ad watch and 5 ticket addition.'')])\<rparr>,
      events = [ReadBody,
       Fetch \<lparr>url = ''https://db.example/rest/v1/actions_log'', http_method = ''POST'',
              headers = [(''apikey'', ''anon-key''), (''Authorization'', ''Bearer anon-key''),
                         (''Content-Type'', ''application/json''), (''Accept'', ''application/json''),
                         (''Prefer'', ''return=minimal'')],
              body = Some (JObj [(''action'', JStr ''watchAd''), (''user_id'', JNum (Finite 7)),
                                 (''payload'', JObj [(''userId'', JNum (Finite 7)), (''action'', JStr ''watchAd''),
                                                    (''reward'', JNum (Finite 5))])])\<rparr>],
      detached = [], unhandled = None\<rparr>"
  by (simp add: handler_def handler_part000_def post_def try_block_def try_block_part000_def
      action_switch_def action_switch_part000_def watchAd_def watchAd_part000_def
      logAction_def logAction_part000_def detach_def callSupabase_def callSupabase_part000_def
      supabase_request_def supabase_request_part000_def base_headers_def request_url_def
      audit_record_def answering_def empty_rowset_def ok_def success_body_def Let_def
      integer_digits_small)

end
